theory Spec2Isabelle
  imports Main
begin

section \<open>Callables, failures and the world they act on\<close>

text \<open>
  The snippets under \<^verbatim>\<open>python-tips/07_decorators\<close> wrap an arbitrary Python callable.
  A callable can print, read the clock, change any object it can reach, return or raise.
  All of that is made explicit: a call takes the world and gives back the world it
  leaves, with either the raised exception (\<open>Inl\<close>) or the returned value (\<open>Inr\<close>).
\<close>

datatype exn = Exn string string

definition ValueError :: "string \<Rightarrow> exn" where
  "ValueError msg = Exn ''ValueError'' msg"

definition TypeError :: "string \<Rightarrow> exn" where
  "TypeError msg = Exn ''TypeError'' msg"

definition AttributeError :: "string \<Rightarrow> exn" where
  "AttributeError msg = Exn ''AttributeError'' msg"

text \<open>A name between single quotes, as the interpreter's messages show it.\<close>

definition quoted :: "string \<Rightarrow> string" where
  "quoted s = [CHR 0x27] @ s @ [CHR 0x27]"

record 'h world =
  stdout :: "string list"
  store :: 'h

type_synonym ('h, 'a) comp = "'h world \<Rightarrow> (exn + 'a) \<times> 'h world"

text \<open>
  A callable object: its \<^verbatim>\<open>__name__\<close> and what calling it with positional inputs
  (\<^verbatim>\<open>*args\<close>, a tuple) and named inputs (\<^verbatim>\<open>**kwargs\<close>, an insertion-ordered
  dict) does. A function made by \<^verbatim>\<open>def\<close> or \<^verbatim>\<open>lambda\<close> has a name; other callables
  (a \<^verbatim>\<open>functools.partial\<close>, an instance of a class with \<^verbatim>\<open>__call__\<close>) have none, and
  \<open>NoName\<close> holds the name of their type, which the interpreter's error shows.
\<close>

datatype dunder_name = Name string | NoName string

record ('v, 'h, 'r) pyfunc =
  func_name :: dunder_name
  func_call :: "'v list \<Rightarrow> (string \<times> 'v) list \<Rightarrow> ('h, 'r) comp"

text \<open>Reading \<^verbatim>\<open>func.__name__\<close>: the name, or the \<^verbatim>\<open>AttributeError\<close> of a callable without one.\<close>

definition read_name :: "('v, 'h, 'r) pyfunc \<Rightarrow> exn + string" where
  "read_name func =
     (case func_name func of
        Name n \<Rightarrow> Inr n
      | NoName t \<Rightarrow>
          Inl (AttributeError (quoted t @ '' object has no attribute '' @ quoted ''__name__'')))"

text \<open>
  \<^verbatim>\<open>functools.wraps(func)(wrapper)\<close>, for an inner function that \<^verbatim>\<open>def wrapper\<close> made:
  it takes the name of \<^verbatim>\<open>func\<close> when there is one and keeps its own otherwise.
\<close>

definition functools_wraps ::
  "('v, 'h, 'r) pyfunc \<Rightarrow> ('v list \<Rightarrow> (string \<times> 'v) list \<Rightarrow> ('h, 'r) comp) \<Rightarrow> ('v, 'h, 'r) pyfunc"
where
  "functools_wraps func wrapper =
     \<lparr>func_name = (case func_name func of Name n \<Rightarrow> Name n | NoName _ \<Rightarrow> Name ''wrapper''),
      func_call = wrapper\<rparr>"

text \<open>
  \<^verbatim>\<open>functools.partial(func, *bound)\<close> of the standard library: a callable without a
  name, which calls \<^verbatim>\<open>func\<close> with \<open>bound\<close> before the inputs it is given.
\<close>

definition functools_partial :: "('v, 'h, 'r) pyfunc \<Rightarrow> 'v list \<Rightarrow> ('v, 'h, 'r) pyfunc" where
  "functools_partial func bound =
     \<lparr>func_name = NoName ''functools.partial'',
      func_call = (\<lambda>args kwargs. func_call func (bound @ args) kwargs)\<rparr>"

text \<open>
  A validation rule is called as \<^verbatim>\<open>rule(arg)\<close> and its result is tested with
  \<^verbatim>\<open>not\<close>: the boolean of a rule's result is the truth value Python gives to the
  object the rule returned.
\<close>

type_synonym ('v, 'h) rule = "'v \<Rightarrow> ('h, bool) comp"

text \<open>\<^verbatim>\<open>print(line)\<close> appends one line to the standard output.\<close>

definition print :: "string \<Rightarrow> 'h world \<Rightarrow> 'h world" where
  "print line w = w\<lparr>stdout := stdout w @ [line]\<rparr>"

text \<open>\<^verbatim>\<open>str(n)\<close> for a non-negative integer: its decimal digits.\<close>

fun str_nat :: "nat \<Rightarrow> string" where
  "str_nat n =
     (if n < 10 then [''0123456789'' ! n]
      else str_nat (n div 10) @ [''0123456789'' ! (n mod 10)])"

declare str_nat.simps [simp del]

section \<open>\<^verbatim>\<open>input_validation.py\<close>\<close>

text \<open>
  \<^verbatim>\<open>
  def validate_inputs(*validation_rules):
      def decorator(func):
          @functools.wraps(func)
          def wrapper(*args, **kwargs):
              for i, (arg, rule) in enumerate(zip(args, validation_rules)):
                  if not rule(arg):
                      raise ValueError(f"Argument at index {i} does not satisfy the rule.")
              return func(*args, **kwargs)
          return wrapper
      return decorator
  \<close>
\<close>

definition index_message :: "nat \<Rightarrow> string" where
  "index_message i = ''Argument at index '' @ str_nat i @ '' does not satisfy the rule.''"

text \<open>
  The \<^verbatim>\<open>for\<close> loop of \<^verbatim>\<open>wrapper\<close>, over the items of
  \<^verbatim>\<open>enumerate(zip(args, validation_rules))\<close>. An exception raised by a rule leaves the
  loop as any exception does; a rule whose result is false raises the \<^verbatim>\<open>ValueError\<close>.
\<close>

fun validate_loop :: "(nat \<times> 'v \<times> ('v, 'h) rule) list \<Rightarrow> ('h, unit) comp" where
  "validate_loop [] w = (Inr (), w)"
| "validate_loop ((i, arg, rule) # items) w =
     (case rule arg w of
        (Inl e, w') \<Rightarrow> (Inl e, w')
      | (Inr ok, w') \<Rightarrow>
          if \<not> ok then (Inl (ValueError (index_message i)), w')
          else validate_loop items w')"

definition validate_wrapper ::
  "('v, 'h) rule list \<Rightarrow> ('v, 'h, 'r) pyfunc \<Rightarrow> 'v list \<Rightarrow> (string \<times> 'v) list \<Rightarrow> ('h, 'r) comp"
where
  "validate_wrapper validation_rules func args kwargs w =
     (case validate_loop (enumerate 0 (zip args validation_rules)) w of
        (Inl e, w') \<Rightarrow> (Inl e, w')
      | (Inr _, w') \<Rightarrow> func_call func args kwargs w')"

text \<open>\<^verbatim>\<open>validate_inputs(*validation_rules)(func)\<close>: the wrapper, dressed by \<^verbatim>\<open>functools.wraps\<close>.\<close>

definition validate_inputs ::
  "('v, 'h) rule list \<Rightarrow> ('v, 'h, 'r) pyfunc \<Rightarrow> ('v, 'h, 'r) pyfunc"
where
  "validate_inputs validation_rules func =
     functools_wraps func (validate_wrapper validation_rules func)"

text \<open>
  Two notions for stating what a call through the wrapper does. \<open>returns rule arg b\<close>:
  the call \<^verbatim>\<open>rule(arg)\<close> returns, and the truth of what it returns is \<open>b\<close>, in
  whatever world it is made. \<open>rule_effects pairs w\<close>: the world that is left when the
  rules of \<open>pairs\<close> have been called on their inputs one after the other, from \<open>w\<close>.
\<close>

definition returns :: "('v, 'h) rule \<Rightarrow> 'v \<Rightarrow> bool \<Rightarrow> bool" where
  "returns rule arg b = (\<forall>w. fst (rule arg w) = Inr b)"

fun rule_effects :: "('v \<times> ('v, 'h) rule) list \<Rightarrow> 'h world \<Rightarrow> 'h world" where
  "rule_effects [] w = w"
| "rule_effects ((arg, rule) # pairs) w = rule_effects pairs (snd (rule arg w))"

text \<open>
  Reading a decimal number back (\<^verbatim>\<open>int(s)\<close> on a string of digits), to say that an
  error message names an index.
\<close>

definition digit_value :: "char \<Rightarrow> nat" where
  "digit_value c = of_char c - 48"

definition nat_of_str :: "string \<Rightarrow> nat" where
  "nat_of_str s = foldl (\<lambda>acc c. 10 * acc + digit_value c) 0 s"

text \<open>
  The module's own use of the decorator:
  \<^verbatim>\<open>
  @validate_inputs(lambda x: isinstance(x, int), lambda x: x > 0)
  def process_numbers(x, y):
      print(f"Processing numbers: {x}, {y}")
  \<close>
  Its values are integers and strings here, which is enough to see both lambdas return
  and the second one raise.
\<close>

datatype pyval = PyInt int | PyStr string | PyNone

definition str_int :: "int \<Rightarrow> string" where
  "str_int n = (if n < 0 then ''-'' @ str_nat (nat (- n)) else str_nat (nat n))"

fun type_name :: "pyval \<Rightarrow> string" where
  "type_name (PyInt _) = ''int''"
| "type_name (PyStr _) = ''str''"
| "type_name PyNone = ''NoneType''"

fun str :: "pyval \<Rightarrow> string" where
  "str (PyInt n) = str_int n"
| "str (PyStr s) = s"
| "str PyNone = ''None''"

text \<open>\<^verbatim>\<open>lambda x: isinstance(x, int)\<close>\<close>

fun is_int_rule :: "(pyval, 'h) rule" where
  "is_int_rule (PyInt _) w = (Inr True, w)"
| "is_int_rule _ w = (Inr False, w)"

text \<open>\<^verbatim>\<open>lambda x: x > 0\<close>: the comparison raises on a value that is not a number.\<close>

fun positive_rule :: "(pyval, 'h) rule" where
  "positive_rule (PyInt n) w = (Inr (n > 0), w)"
| "positive_rule v w =
     (Inl (TypeError (quoted ''>'' @ '' not supported between instances of '' @
        quoted (type_name v) @ '' and '' @ quoted ''int'')), w)"

text \<open>
  How the interpreter binds the inputs of a call to the parameters of a function
  \<^verbatim>\<open>def f(p1, ..., pn)\<close>, and the \<^verbatim>\<open>TypeError\<close> it raises when it cannot. The
  positional inputs fill the parameters from the left. Each named input then goes to the
  parameter of its name: there must be one, and it must still be free. After that, there
  must be no positional input left over and no parameter left free.
\<close>

fun bind_keywords ::
  "string \<Rightarrow> string list \<Rightarrow> (string \<times> 'v) list \<Rightarrow> (string \<times> 'v) list \<Rightarrow> exn + (string \<times> 'v) list"
where
  "bind_keywords f params bound [] = Inr bound"
| "bind_keywords f params bound ((k, v) # kwargs) =
     (if k \<notin> set params then
        Inl (TypeError (f @ ''() got an unexpected keyword argument '' @ quoted k))
      else if map_of bound k \<noteq> None then
        Inl (TypeError (f @ ''() got multiple values for argument '' @ quoted k))
      else bind_keywords f params (bound @ [(k, v)]) kwargs)"

fun names_tail :: "string list \<Rightarrow> string" where
  "names_tail [] = []"
| "names_tail [z] = ''and '' @ quoted z"
| "names_tail (a # rest) = quoted a @ '', '' @ names_tail rest"

fun names_text :: "string list \<Rightarrow> string" where
  "names_text [a] = quoted a"
| "names_text [a, b] = quoted a @ '' and '' @ quoted b"
| "names_text names = names_tail names"

definition plural :: "nat \<Rightarrow> string" where
  "plural n = (if n = 1 then [] else ''s'')"

definition bind_arguments ::
  "string \<Rightarrow> string list \<Rightarrow> 'v list \<Rightarrow> (string \<times> 'v) list \<Rightarrow> exn + 'v list"
where
  "bind_arguments f params args kwargs =
     (case bind_keywords f params (zip params args) kwargs of
        Inl e \<Rightarrow> Inl e
      | Inr bound \<Rightarrow>
          if length params < length args then
            Inl (TypeError (f @ ''() takes '' @ str_nat (length params) @ '' positional argument'' @
              plural (length params) @ '' but '' @ str_nat (length args) @
              (if length args = 1 then '' was'' else '' were'') @ '' given''))
          else
            (case filter (\<lambda>p. map_of bound p = None) params of
               [] \<Rightarrow> Inr (List.map_filter (map_of bound) params)
             | missing \<Rightarrow>
                 Inl (TypeError (f @ ''() missing '' @ str_nat (length missing) @
                   '' required positional argument'' @ plural (length missing) @ '': '' @
                   names_text missing))))"

text \<open>
  The undecorated \<^verbatim>\<open>process_numbers\<close>: once \<open>x\<close> and \<open>y\<close> are bound, the body prints
  one line and returns \<^verbatim>\<open>None\<close>.
\<close>

definition process_numbers_body :: "(pyval, 'h, pyval) pyfunc" where
  "process_numbers_body =
     \<lparr>func_name = Name ''process_numbers'',
      func_call = (\<lambda>args kwargs w.
        case bind_arguments ''process_numbers'' [''x'', ''y''] args kwargs of
          Inl e \<Rightarrow> (Inl e, w)
        | Inr bound \<Rightarrow>
            (Inr PyNone,
             print (''Processing numbers: '' @ str (bound ! 0) @ '', '' @ str (bound ! 1)) w))\<rparr>"

definition process_numbers :: "(pyval, 'h, pyval) pyfunc" where
  "process_numbers = validate_inputs [is_int_rule, positive_rule] process_numbers_body"

section \<open>\<^verbatim>\<open>timing.py\<close>\<close>

text \<open>
  \<^verbatim>\<open>
  def timeit(func):
      @functools.wraps(func)
      def wrapper(*args, **kwargs):
          start_time = time.time()
          result = func(*args, **kwargs)
          end_time = time.time()
          print(f"{func.__name__} executed in {end_time - start_time} seconds.")
          return result
      return wrapper
  \<close>
  The clock and the text of a float are the platform's, not this module's: \<open>time_time\<close>
  reads the clock of a world, in a type of numbers that has the subtraction, and
  \<open>str_elapsed\<close> is the text that the f-string gives to a number. Both are parameters.
  The f-string reads \<^verbatim>\<open>func.__name__\<close> after the target has returned, and before anything
  is printed.
\<close>

definition timeit_wrapper ::
  "('h world \<Rightarrow> 't::minus) \<Rightarrow> ('t \<Rightarrow> string) \<Rightarrow> ('v, 'h, 'r) pyfunc \<Rightarrow>
     'v list \<Rightarrow> (string \<times> 'v) list \<Rightarrow> ('h, 'r) comp"
where
  "timeit_wrapper time_time str_elapsed func args kwargs w =
     (let start_time = time_time w in
      case func_call func args kwargs w of
        (Inl e, w') \<Rightarrow> (Inl e, w')
      | (Inr result, w') \<Rightarrow>
          let end_time = time_time w' in
          (case read_name func of
             Inl e \<Rightarrow> (Inl e, w')
           | Inr name \<Rightarrow>
               (Inr result,
                print (name @ '' executed in '' @ str_elapsed (end_time - start_time) @ '' seconds.'') w')))"

definition timeit ::
  "('h world \<Rightarrow> 't::minus) \<Rightarrow> ('t \<Rightarrow> string) \<Rightarrow> ('v, 'h, 'r) pyfunc \<Rightarrow> ('v, 'h, 'r) pyfunc"
where
  "timeit time_time str_elapsed func =
     functools_wraps func (timeit_wrapper time_time str_elapsed func)"

text \<open>
  \<^verbatim>\<open>
  @timeit
  def long_running_task():
      time.sleep(2)
      print("Task completed.")
  \<close>
  in a world whose store is the clock, read in whole seconds. \<open>clock_change\<close> is how much
  later the clock reads when the sleep is over: \<open>2\<close> when the clock runs evenly and the
  sleep takes the time it asks for, less when the clock of the system is set back
  meanwhile. \<open>str_whole_seconds\<close> is the text of a float that is a whole number.
\<close>

definition long_running_task_body :: "int \<Rightarrow> (pyval, int, pyval) pyfunc" where
  "long_running_task_body clock_change =
     \<lparr>func_name = Name ''long_running_task'',
      func_call = (\<lambda>args kwargs w.
        case bind_arguments ''long_running_task'' [] args kwargs of
          Inl e \<Rightarrow> (Inl e, w)
        | Inr bound \<Rightarrow>
            (Inr PyNone, print ''Task completed.'' (w\<lparr>store := store w + clock_change\<rparr>)))\<rparr>"

definition str_whole_seconds :: "int \<Rightarrow> string" where
  "str_whole_seconds d = str_int d @ ''.0''"

definition long_running_task :: "int \<Rightarrow> (pyval, int, pyval) pyfunc" where
  "long_running_task clock_change =
     timeit store str_whole_seconds (long_running_task_body clock_change)"

section \<open>\<^verbatim>\<open>03_generators/main.py\<close>: the two Fibonacci functions\<close>

text \<open>
  \<^verbatim>\<open>
  def fibon_generator(n):
      a = b = 1
      for i in range(n):
          yield a
          a, b = b, a + b
  \<close>
  A generator object is created without running any of the body. Each \<^verbatim>\<open>next\<close> runs
  the body to the next \<^verbatim>\<open>yield\<close> (\<open>Some\<close> of the value) or to its end
  (\<^verbatim>\<open>StopIteration\<close>, \<open>None\<close>). A suspended generator holds \<open>a\<close>, \<open>b\<close>, how many items
  of \<^verbatim>\<open>range(n)\<close> the loop has taken, and \<open>n\<close>.
\<close>

datatype fibon_gen = Created int | Suspended int int nat int | Finished

definition fibon_generator :: "int \<Rightarrow> fibon_gen" where
  "fibon_generator n = Created n"

fun gen_next :: "fibon_gen \<Rightarrow> int option \<times> fibon_gen" where
  "gen_next (Created n) =
     (let a = 1; b = 1 in
      if 0 < n then (Some a, Suspended a b 1 n) else (None, Finished))"
| "gen_next (Suspended a b taken n) =
     (let (a, b) = (b, a + b) in
      if int taken < n then (Some a, Suspended a b (Suc taken) n) else (None, Finished))"
| "gen_next Finished = (None, Finished)"

text \<open>
  How many more values a generator can still yield at most: what gets smaller with
  every \<^verbatim>\<open>next\<close> that yields.
\<close>

fun remaining :: "fibon_gen \<Rightarrow> nat" where
  "remaining (Created n) = Suc (nat n)"
| "remaining (Suspended a b taken n) = nat n - taken"
| "remaining Finished = 0"

text \<open>\<^verbatim>\<open>for x in gen\<close>, the values in the order they are yielded.\<close>

function yielded :: "fibon_gen \<Rightarrow> int list" where
  "yielded g = (case gen_next g of (None, _) \<Rightarrow> [] | (Some x, g') \<Rightarrow> x # yielded g')"
  by pat_completeness auto
termination
proof (relation "measure remaining")
  show "wf (measure remaining)" by simp
next
  fix g g' :: fibon_gen and r :: "int option" and x :: int
  assume "(r, g') = gen_next g" and "r = Some x"
  then have "gen_next g = (Some x, g')" by simp
  then have "remaining g' < remaining g"
    by (cases g) (auto split: if_splits)
  then show "(g', g) \<in> measure remaining" by simp
qed

declare yielded.simps [simp del]

text \<open>
  \<^verbatim>\<open>
  def fibon_normal(n):
      a = b = 1
      result = []
      for i in range(n):
          result.append(a)
          a, b = b, a + b
      return result
  \<close>
\<close>

fun fibon_normal_loop :: "nat list \<Rightarrow> int \<Rightarrow> int \<Rightarrow> int list \<Rightarrow> int list" where
  "fibon_normal_loop [] a b result = result"
| "fibon_normal_loop (i # items) a b result = fibon_normal_loop items b (a + b) (result @ [a])"

definition fibon_normal :: "int \<Rightarrow> int list" where
  "fibon_normal n = fibon_normal_loop [0..<nat n] 1 1 []"

text \<open>The Fibonacci numbers that start 1, 1, as the claim words them.\<close>

fun fibonacci :: "nat \<Rightarrow> int" where
  "fibonacci 0 = 1"
| "fibonacci (Suc 0) = 1"
| "fibonacci (Suc (Suc k)) = fibonacci k + fibonacci (Suc k)"

definition first_fibonacci :: "nat \<Rightarrow> int list" where
  "first_fibonacci n = map fibonacci [0..<n]"

section \<open>Facts about the validation loop\<close>

text \<open>Decimal digits can be read back, so two indices with the same message are equal.\<close>

lemma str_nat_digit: "n < 10 \<Longrightarrow> str_nat n = [''0123456789'' ! n]"
  by (simp add: str_nat.simps [of n])

lemma str_nat_digits:
  "10 \<le> n \<Longrightarrow> str_nat n = str_nat (n div 10) @ [''0123456789'' ! (n mod 10)]"
  by (simp add: str_nat.simps [of n])

lemma digit_value_digit:
  assumes "d < 10"
  shows "digit_value (''0123456789'' ! d) = d"
proof -
  from assms have "d \<in> {0, 1, 2, 3, 4, 5, 6, 7, 8, 9}" by auto
  then show ?thesis by (auto simp: digit_value_def)
qed

lemma nat_of_str_str_nat: "nat_of_str (str_nat n) = n"
proof (induction n rule: str_nat.induct)
  case (1 n)
  show ?case
  proof (cases "n < 10")
    case True
    then show ?thesis
      by (simp add: str_nat.simps [of n] nat_of_str_def digit_value_digit)
  next
    case False
    with "1.IH" have "nat_of_str (str_nat (n div 10)) = n div 10" by simp
    with False show ?thesis
      by (simp add: str_nat.simps [of n] nat_of_str_def digit_value_digit)
  qed
qed

lemma index_message_inj:
  assumes "index_message i = index_message j"
  shows "i = j"
proof -
  from assms have "str_nat i = str_nat j"
    by (simp add: index_message_def)
  then have "nat_of_str (str_nat i) = nat_of_str (str_nat j)" by simp
  then show ?thesis by (simp add: nat_of_str_str_nat)
qed

text \<open>
  The loop over a list of items that is cut in two: the second part runs only if the
  first one is left normally, in the world the first one leaves, and its indices go on
  from where the first part ends.
\<close>

lemma rule_effects_append:
  "rule_effects (pre @ post) w = rule_effects post (rule_effects pre w)"
  by (induction pre arbitrary: w) auto

lemma rule_effects_silent:
  assumes "\<forall>(a, r) \<in> set pairs. \<forall>w. snd (r a w) = w"
  shows "rule_effects pairs w = w"
  using assms by (induction pairs arbitrary: w) auto

lemma validate_loop_append:
  "validate_loop (enumerate k (pre @ post)) w =
     (case validate_loop (enumerate k pre) w of
        (Inl e, w') \<Rightarrow> (Inl e, w')
      | (Inr u, w') \<Rightarrow> validate_loop (enumerate (k + length pre) post) w')"
proof (induction pre arbitrary: k w)
  case Nil
  show ?case by simp
next
  case (Cons p pre)
  obtain arg rule where p: "p = (arg, rule)" by (cases p)
  show ?case
  proof (cases "rule arg w")
    case (Pair res w1)
    show ?thesis
    proof (cases res)
      case (Inl e)
      with p Pair show ?thesis by simp
    next
      case (Inr ok)
      with p Pair Cons.IH [of "Suc k" w1] show ?thesis
        by (simp split: prod.splits sum.splits)
    qed
  qed
qed

text \<open>Rules that all return true let the loop finish; the first one that returns false ends it.\<close>

lemma validate_loop_all_true:
  assumes "\<forall>(arg, rule) \<in> set pairs. returns rule arg True"
  shows "validate_loop (enumerate k pairs) w = (Inr (), rule_effects pairs w)"
  using assms
proof (induction pairs arbitrary: k w)
  case Nil
  show ?case by simp
next
  case (Cons p pairs)
  obtain arg rule where p: "p = (arg, rule)" by (cases p)
  with Cons.prems have "fst (rule arg w) = Inr True"
    by (simp add: returns_def)
  then obtain w1 where w1: "rule arg w = (Inr True, w1)"
    by (cases "rule arg w") simp
  moreover from Cons.prems have "\<forall>(arg, rule) \<in> set pairs. returns rule arg True"
    by simp
  ultimately show ?case
    using Cons.IH [of "Suc k" w1] p by simp
qed

lemma validate_loop_first_false:
  assumes "\<forall>(a, r) \<in> set pre. returns r a True"
    and "returns rule arg False"
  shows "validate_loop (enumerate k (pre @ (arg, rule) # post)) w =
           (Inl (ValueError (index_message (k + length pre))), rule_effects (pre @ [(arg, rule)]) w)"
proof -
  let ?w1 = "rule_effects pre w"
  from assms(2) have "fst (rule arg ?w1) = Inr False"
    by (simp add: returns_def)
  then obtain w2 where w2: "rule arg ?w1 = (Inr False, w2)"
    by (cases "rule arg ?w1") simp
  then have "validate_loop (enumerate (k + length pre) ((arg, rule) # post)) ?w1 =
      (Inl (ValueError (index_message (k + length pre))), snd (rule arg ?w1))"
    by simp
  with validate_loop_all_true [OF assms(1), of k w] show ?thesis
    by (simp add: validate_loop_append rule_effects_append)
qed

text \<open>
  Whatever the rules do, raise included, the world that the loop leaves is the work of
  the rules at the first \<open>n\<close> indices, and of all of them when the loop finishes.
\<close>

lemma validate_loop_world:
  "\<exists>n \<le> length pairs. snd (validate_loop (enumerate k pairs) w) = rule_effects (take n pairs) w
      \<and> (fst (validate_loop (enumerate k pairs) w) = Inr () \<longrightarrow> n = length pairs)"
proof (induction pairs arbitrary: k w)
  case Nil
  show ?case by simp
next
  case (Cons p pairs)
  obtain arg rule where p: "p = (arg, rule)" by (cases p)
  obtain res w1 where step: "rule arg w = (res, w1)" by (cases "rule arg w")
  show ?case
  proof (cases "res = Inr True")
    case True
    from Cons.IH [of "Suc k" w1] obtain n where n: "n \<le> length pairs"
      "snd (validate_loop (enumerate (Suc k) pairs) w1) = rule_effects (take n pairs) w1"
      "fst (validate_loop (enumerate (Suc k) pairs) w1) = Inr () \<longrightarrow> n = length pairs"
      by blast
    with p step True have "Suc n \<le> length (p # pairs) \<and>
        snd (validate_loop (enumerate k (p # pairs)) w) = rule_effects (take (Suc n) (p # pairs)) w \<and>
        (fst (validate_loop (enumerate k (p # pairs)) w) = Inr () \<longrightarrow> Suc n = length (p # pairs))"
      by simp
    then show ?thesis by blast
  next
    case False
    with p step have "Suc 0 \<le> length (p # pairs) \<and>
        snd (validate_loop (enumerate k (p # pairs)) w) = rule_effects (take (Suc 0) (p # pairs)) w \<and>
        (fst (validate_loop (enumerate k (p # pairs)) w) = Inr () \<longrightarrow> Suc 0 = length (p # pairs))"
      by (cases res) (auto simp: ValueError_def)
    then show ?thesis by blast
  qed
qed

text \<open>From items of \<^verbatim>\<open>zip(args, validation_rules)\<close> to indices.\<close>

lemma paired_prefix:
  assumes "i < length args" "i < length rules"
  shows "zip args rules = take i (zip args rules) @ (args ! i, rules ! i) # drop (Suc i) (zip args rules)"
  using assms id_take_nth_drop [of i "zip args rules"] by simp

lemma paired_prefix_all:
  assumes "\<forall>j<i. P (args ! j) (rules ! j)" "i \<le> length args" "i \<le> length rules"
  shows "\<forall>(a, r) \<in> set (take i (zip args rules)). P a r"
proof -
  have "P a r" if "(a, r) \<in> set (take i (zip args rules))" for a r
  proof -
    from that obtain j where "j < length (take i (zip args rules))" "take i (zip args rules) ! j = (a, r)"
      by (auto simp: in_set_conv_nth)
    with assms show ?thesis by auto
  qed
  then show ?thesis by auto
qed

lemma validate_wrapper_first_false:
  assumes "i < length args" "i < length rules"
    and "returns (rules ! i) (args ! i) False"
    and "\<forall>j<i. returns (rules ! j) (args ! j) True"
  shows "validate_wrapper rules func args kwargs w =
           (Inl (ValueError (index_message i)), rule_effects (take (Suc i) (zip args rules)) w)"
proof -
  let ?ps = "zip args rules"
  let ?pre = "take i ?ps"
  from assms(1,2) have split: "?ps = ?pre @ (args ! i, rules ! i) # drop (Suc i) ?ps"
    by (rule paired_prefix)
  from assms(1,2,4) have pre: "\<forall>(a, r) \<in> set ?pre. returns r a True"
    by (intro paired_prefix_all) simp_all
  from assms(1,2) have len: "length ?pre = i" by simp
  from assms(1,2) have take: "take (Suc i) ?ps = ?pre @ [(args ! i, rules ! i)]"
    by (simp add: take_Suc_conv_app_nth)
  have "validate_loop (enumerate 0 (?pre @ (args ! i, rules ! i) # drop (Suc i) ?ps)) w =
      (Inl (ValueError (index_message (0 + length ?pre))), rule_effects (?pre @ [(args ! i, rules ! i)]) w)"
    using pre assms(3) by (rule validate_loop_first_false)
  with split len take have "validate_loop (enumerate 0 ?ps) w =
      (Inl (ValueError (index_message i)), rule_effects (take (Suc i) ?ps) w)"
    by simp
  then show ?thesis by (simp add: validate_wrapper_def)
qed

lemma validate_wrapper_all_true:
  assumes "\<forall>i < min (length args) (length rules). returns (rules ! i) (args ! i) True"
  shows "validate_wrapper rules func args kwargs w =
           func_call func args kwargs (rule_effects (zip args rules) w)"
proof -
  let ?n = "min (length args) (length rules)"
  from assms have "\<forall>(a, r) \<in> set (take ?n (zip args rules)). returns r a True"
    by (intro paired_prefix_all) simp_all
  then have "\<forall>(a, r) \<in> set (zip args rules). returns r a True"
    by simp
  then have "validate_loop (enumerate 0 (zip args rules)) w = (Inr (), rule_effects (zip args rules) w)"
    by (rule validate_loop_all_true)
  then show ?thesis by (simp add: validate_wrapper_def)
qed

section \<open>Facts about the two functions of the modules\<close>

text \<open>A binding that succeeds gives one value for each parameter.\<close>

lemma bind_arguments_length:
  assumes "bind_arguments f params args kwargs = Inr bound"
  shows "length bound = length params"
proof -
  from assms obtain named where
    all: "filter (\<lambda>p. map_of named p = None) params = []"
    and bound: "bound = List.map_filter (map_of named) params"
    by (auto simp: bind_arguments_def split: sum.splits if_splits list.splits)
  from all have "\<forall>p \<in> set params. map_of named p \<noteq> None"
    by (simp add: filter_empty_conv)
  then have "length (List.map_filter (map_of named) params) = length params"
    by (induction params) (auto simp: List.map_filter_simps)
  with bound show ?thesis by simp
qed

lemma process_numbers_body_positional:
  "func_call process_numbers_body [x, y] [] w =
     (Inr PyNone, print (''Processing numbers: '' @ str x @ '', '' @ str y) w)"
  by (simp add: process_numbers_body_def bind_arguments_def)

lemma process_numbers_body_named_y:
  "func_call process_numbers_body [x] [(''y'', y)] w =
     (Inr PyNone, print (''Processing numbers: '' @ str x @ '', '' @ str y) w)"
  by (simp add: process_numbers_body_def bind_arguments_def)

lemma long_running_task_body_no_input:
  "func_call (long_running_task_body clock_change) [] [] w =
     (Inr PyNone, print ''Task completed.'' (w\<lparr>store := store w + clock_change\<rparr>))"
  by (simp add: long_running_task_body_def bind_arguments_def)

lemma process_numbers_body_name: "func_name process_numbers_body = Name ''process_numbers''"
  by (simp add: process_numbers_body_def)

lemma long_running_task_body_name:
  "func_name (long_running_task_body clock_change) = Name ''long_running_task''"
  by (simp add: long_running_task_body_def)

section \<open>The validating wrapper\<close>

text \<open>
  Claim C1, as the code has it. If the rule at index \<open>i\<close> returns false on the
  positional input at index \<open>i\<close>, and every rule at a smaller index returns true on its
  input, the call raises \<^verbatim>\<open>ValueError\<close> (the built-in exception: the module has no
  \<^verbatim>\<open>ValidationError\<close>) with the message that names \<open>i\<close> and no other index. The
  target is not called: the outcome does not mention it, and the world is the one that
  the rules at indices \<open>0\<close> to \<open>i\<close> leave.
\<close>

theorem validate_inputs_first_failing_rule:
  assumes "i < length args" and "i < length rules"
    and "returns (rules ! i) (args ! i) False"
    and "\<forall>j<i. returns (rules ! j) (args ! j) True"
  shows "func_call (validate_inputs rules func) args kwargs w =
           (Inl (ValueError (index_message i)), rule_effects (take (Suc i) (zip args rules)) w)
         \<and> (\<forall>j. index_message j = index_message i \<longrightarrow> j = i)"
proof
  show "func_call (validate_inputs rules func) args kwargs w =
      (Inl (ValueError (index_message i)), rule_effects (take (Suc i) (zip args rules)) w)"
    using assms by (simp add: validate_inputs_def functools_wraps_def validate_wrapper_first_false)
  show "\<forall>j. index_message j = index_message i \<longrightarrow> j = i"
    by (blast dest: index_message_inj)
qed

text \<open>\<^verbatim>\<open>process_numbers(10, -5)\<close>, the second call of the module.\<close>

theorem validate_inputs_first_failing_rule_witness:
  "func_call process_numbers [PyInt 10, PyInt (- 5)] [] \<lparr>stdout = [], store = ()\<rparr> =
     (Inl (Exn ''ValueError'' ''Argument at index 1 does not satisfy the rule.''),
      \<lparr>stdout = [], store = ()\<rparr>)"
proof -
  have "returns (is_int_rule :: (pyval, unit) rule) (PyInt 10) True"
    and "returns (positive_rule :: (pyval, unit) rule) (PyInt (- 5)) False"
    by (simp_all add: returns_def)
  then show ?thesis
    using validate_inputs_first_failing_rule
      [of 1 "[PyInt 10, PyInt (- 5)]" "[is_int_rule, positive_rule]" process_numbers_body "[]"
        "\<lparr>stdout = [], store = ()\<rparr>"]
    by (simp add: process_numbers_def ValueError_def index_message_def str_nat_digit)
qed

text \<open>
  Claim C1 as it is worded, for every index whose rule returns false, does not hold. The
  index that is named is the first one that fails, not every one:
  \<^verbatim>\<open>process_numbers("ten", -5)\<close> has a rule that returns false at index 1, and the error
  is a \<^verbatim>\<open>ValueError\<close> that names index 0.
\<close>

theorem validate_inputs_later_failure_not_reported:
  "fst (positive_rule (PyInt (- 5)) \<lparr>stdout = [], store = ()\<rparr>) = Inr False \<and>
   fst (func_call process_numbers [PyStr ''ten'', PyInt (- 5)] [] \<lparr>stdout = [], store = ()\<rparr>) =
     Inl (Exn ''ValueError'' ''Argument at index 0 does not satisfy the rule.'') \<and>
   fst (func_call process_numbers [PyStr ''ten'', PyInt (- 5)] [] \<lparr>stdout = [], store = ()\<rparr>) \<noteq>
     Inl (Exn ''ValueError'' ''Argument at index 1 does not satisfy the rule.'')"
  by (simp add: process_numbers_def validate_inputs_def functools_wraps_def validate_wrapper_def ValueError_def
      index_message_def str_nat_digit)

text \<open>
  The two calls at the end of the module. \<^verbatim>\<open>-10\<close> is an integer and \<^verbatim>\<open>5\<close> is
  positive: the first call passes both rules and prints; the second call raises.
\<close>

lemma process_numbers_module_calls:
  "func_call process_numbers [PyInt (- 10), PyInt 5] [] \<lparr>stdout = [], store = ()\<rparr> =
     (Inr PyNone, \<lparr>stdout = [''Processing numbers: -10, 5''], store = ()\<rparr>)"
  "func_call process_numbers [PyInt 10, PyInt (- 5)] [] \<lparr>stdout = [], store = ()\<rparr> =
     (Inl (Exn ''ValueError'' ''Argument at index 1 does not satisfy the rule.''),
      \<lparr>stdout = [], store = ()\<rparr>)"
  by (simp_all add: process_numbers_def validate_inputs_def functools_wraps_def validate_wrapper_def ValueError_def
      index_message_def process_numbers_body_positional process_numbers_body_named_y print_def str_int_def
      str_nat_digit str_nat_digits)

text \<open>
  Claim C2. When every rule that is paired with a positional input returns true on it, a
  call through the wrapper is the call of the target with the same positional and named
  inputs, in the world the rules leave: same result or exception, same final world. When
  the rules moreover leave the world as it is, it is the call of the target where the
  wrapper was called.
\<close>

theorem validate_inputs_pass_through:
  assumes "\<forall>i < min (length args) (length rules). returns (rules ! i) (args ! i) True"
  shows "func_call (validate_inputs rules func) args kwargs w =
           func_call func args kwargs (rule_effects (zip args rules) w)
         \<and> ((\<forall>i < min (length args) (length rules). \<forall>w. snd ((rules ! i) (args ! i) w) = w) \<longrightarrow>
              func_call (validate_inputs rules func) args kwargs w = func_call func args kwargs w)"
proof (intro conjI impI)
  show call: "func_call (validate_inputs rules func) args kwargs w =
      func_call func args kwargs (rule_effects (zip args rules) w)"
    using assms by (simp add: validate_inputs_def functools_wraps_def validate_wrapper_all_true)
  assume "\<forall>i < min (length args) (length rules). \<forall>w. snd ((rules ! i) (args ! i) w) = w"
  then have "\<forall>(a, r) \<in> set (take (min (length args) (length rules)) (zip args rules)). \<forall>w. snd (r a w) = w"
    by (intro paired_prefix_all) simp_all
  then have "rule_effects (zip args rules) w = w"
    by (intro rule_effects_silent) simp
  with call show "func_call (validate_inputs rules func) args kwargs w = func_call func args kwargs w"
    by simp
qed

text \<open>\<^verbatim>\<open>process_numbers(10, 5)\<close>\<close>

theorem validate_inputs_pass_through_witness:
  "func_call process_numbers [PyInt 10, PyInt 5] [] \<lparr>stdout = [], store = ()\<rparr> =
     func_call process_numbers_body [PyInt 10, PyInt 5] [] \<lparr>stdout = [], store = ()\<rparr> \<and>
   func_call process_numbers [PyInt 10, PyInt 5] [] \<lparr>stdout = [], store = ()\<rparr> =
     (Inr PyNone, \<lparr>stdout = [''Processing numbers: 10, 5''], store = ()\<rparr>)"
proof -
  have "\<forall>i < min (length [PyInt 10, PyInt 5]) (length [is_int_rule, positive_rule :: (pyval, unit) rule]).
      returns ([is_int_rule, positive_rule :: (pyval, unit) rule] ! i) ([PyInt 10, PyInt 5] ! i) True"
    by (simp add: returns_def less_Suc_eq numeral_2_eq_2)
  from validate_inputs_pass_through [OF this, of process_numbers_body "[]" "\<lparr>stdout = [], store = ()\<rparr>"]
  show ?thesis
    by (simp add: process_numbers_def process_numbers_body_positional process_numbers_body_named_y print_def str_int_def
        str_nat_digit str_nat_digits)
qed

text \<open>
  Claim C5. Rules at indices from the number of positional inputs on can be replaced by
  any rules, ones that raise or change the world too, or left out: the call does the same,
  so they are not evaluated. Positional inputs at indices from the number of rules on go
  to the target and nowhere else: the call does what a call without them does on a target
  that gets them appended.
\<close>

theorem validate_inputs_unpaired:
  "(length args \<le> length rules \<longrightarrow>
      func_call (validate_inputs (rules @ excess_rules) func) args kwargs w =
      func_call (validate_inputs rules func) args kwargs w) \<and>
   (length rules \<le> length args \<longrightarrow>
      func_call (validate_inputs rules func) (args @ excess_args) kwargs w =
      func_call (validate_inputs rules
        (func\<lparr>func_call := \<lambda>a. func_call func (a @ excess_args)\<rparr>)) args kwargs w)"
proof (intro conjI impI)
  assume "length args \<le> length rules"
  then have "zip args (rules @ excess_rules) = zip args rules"
    by (simp add: zip_append2)
  then show "func_call (validate_inputs (rules @ excess_rules) func) args kwargs w =
      func_call (validate_inputs rules func) args kwargs w"
    by (simp add: validate_inputs_def functools_wraps_def validate_wrapper_def)
next
  assume "length rules \<le> length args"
  then have "zip (args @ excess_args) rules = zip args rules"
    by (simp add: zip_append1)
  then show "func_call (validate_inputs rules func) (args @ excess_args) kwargs w =
      func_call (validate_inputs rules
        (func\<lparr>func_call := \<lambda>a. func_call func (a @ excess_args)\<rparr>)) args kwargs w"
    by (simp add: validate_inputs_def functools_wraps_def validate_wrapper_def split: prod.splits sum.splits)
qed

text \<open>
  One rule more than inputs, \<^verbatim>\<open>process_numbers(10, y="five")\<close>; one input more than
  rules, with the first lambda as the only rule.
\<close>

theorem validate_inputs_unpaired_witness:
  "func_call (validate_inputs ([is_int_rule] @ [positive_rule]) process_numbers_body)
      [PyInt 10] [(''y'', PyStr ''five'')] \<lparr>stdout = [], store = ()\<rparr> =
     (Inr PyNone, \<lparr>stdout = [''Processing numbers: 10, five''], store = ()\<rparr>) \<and>
   func_call (validate_inputs [is_int_rule] process_numbers_body)
      ([PyInt 10] @ [PyStr ''five'']) [] \<lparr>stdout = [], store = ()\<rparr> =
     (Inr PyNone, \<lparr>stdout = [''Processing numbers: 10, five''], store = ()\<rparr>)"
  using validate_inputs_unpaired [of "[PyInt 10]" "[is_int_rule]" "[positive_rule]" process_numbers_body
      "[(''y'', PyStr ''five'')]" "\<lparr>stdout = [], store = ()\<rparr>" "[PyStr ''five'']"]
  by (simp add: validate_inputs_def functools_wraps_def validate_wrapper_def process_numbers_body_positional process_numbers_body_named_y print_def
      str_int_def str_nat_digit str_nat_digits)

text \<open>
  Claim C6. The named inputs reach the target and nothing else: with any other named
  inputs \<open>kwargs'\<close> in the call, a target that is handed \<open>kwargs\<close> all the same gives the
  same outcome. So no rule sees a named input, and the target gets them as they were
  passed.
\<close>

theorem validate_inputs_named_inputs:
  "func_call (validate_inputs rules func) args kwargs w =
   func_call (validate_inputs rules (func\<lparr>func_call := \<lambda>a k. func_call func a kwargs\<rparr>)) args kwargs' w"
  by (simp add: validate_inputs_def functools_wraps_def validate_wrapper_def split: prod.splits sum.splits)

text \<open>
  \<^verbatim>\<open>process_numbers(10, y=-5)\<close>: passed by name, \<^verbatim>\<open>-5\<close> does not meet the second
  rule.
\<close>

theorem validate_inputs_named_inputs_witness:
  "func_call process_numbers [PyInt 10] [(''y'', PyInt (- 5))] \<lparr>stdout = [], store = ()\<rparr> =
     (Inr PyNone, \<lparr>stdout = [''Processing numbers: 10, -5''], store = ()\<rparr>)"
  using validate_inputs_named_inputs [of "[is_int_rule, positive_rule]" process_numbers_body
      "[PyInt 10]" "[(''y'', PyInt (- 5))]" "\<lparr>stdout = [], store = ()\<rparr>" "[]"]
  by (simp add: process_numbers_def validate_inputs_def functools_wraps_def validate_wrapper_def process_numbers_body_positional process_numbers_body_named_y
      print_def str_int_def str_nat_digit str_nat_digits)

text \<open>
  Claim C9, as the code has it. Let more than one positional input fail its rule: the
  rules at two indices \<open>m < j\<close> return false, and \<open>m\<close> is the smallest index whose rule
  returns false. Let no rule before \<open>m\<close> raise: each returns a truth value. Then the call
  raises the \<^verbatim>\<open>ValueError\<close> whose message names \<open>m\<close> and no other index, the world is
  the one that the rules at indices \<open>0\<close> to \<open>m\<close> leave, and neither the rules at larger
  indices nor the target are evaluated: any other rules \<open>later\<close> in their place, ones
  that raise too, and any other target \<open>func'\<close> give the same outcome.
\<close>

theorem validate_inputs_smallest_failing_index:
  assumes "m < j" and "j < min (length args) (length rules)"
    and "returns (rules ! m) (args ! m) False" and "returns (rules ! j) (args ! j) False"
    and smallest: "\<forall>k<m. \<not> returns (rules ! k) (args ! k) False"
    and before: "\<forall>k<m. \<exists>b. returns (rules ! k) (args ! k) b"
  shows "func_call (validate_inputs rules func) args kwargs w =
           (Inl (ValueError (index_message m)), rule_effects (take (Suc m) (zip args rules)) w) \<and>
         (\<forall>k. index_message k = index_message m \<longrightarrow> k = m) \<and>
         (\<forall>later func'.
            func_call (validate_inputs (take (Suc m) rules @ later) func') args kwargs w =
            func_call (validate_inputs rules func) args kwargs w)"
proof (intro conjI allI impI)
  from assms(1,2) have m_args: "m < length args" and m_rules: "m < length rules"
    by simp_all
  have true_before: "\<forall>k<m. returns (rules ! k) (args ! k) True"
  proof (intro allI impI)
    fix k assume "k < m"
    with before obtain b where "returns (rules ! k) (args ! k) b"
      by blast
    moreover from \<open>k < m\<close> smallest have "\<not> returns (rules ! k) (args ! k) False"
      by simp
    ultimately show "returns (rules ! k) (args ! k) True"
      by (cases b) simp_all
  qed
  show call: "func_call (validate_inputs rules func) args kwargs w =
      (Inl (ValueError (index_message m)), rule_effects (take (Suc m) (zip args rules)) w)"
    using m_args m_rules assms(3) true_before
    by (simp add: validate_inputs_def functools_wraps_def validate_wrapper_first_false)
  show "k = m" if "index_message k = index_message m" for k
    using that by (rule index_message_inj)
  show "func_call (validate_inputs (take (Suc m) rules @ later) func') args kwargs w =
      func_call (validate_inputs rules func) args kwargs w" for later func'
  proof -
    let ?rules' = "take (Suc m) rules @ later"
    from m_rules have same: "\<forall>k\<le>m. ?rules' ! k = rules ! k"
      by (simp add: nth_append)
    from m_rules have "take (Suc m) ?rules' = take (Suc m) rules"
      by simp
    then have "take (Suc m) (zip args ?rules') = take (Suc m) (zip args rules)"
      by (simp only: take_zip)
    moreover from m_rules have "m < length ?rules'" by simp
    moreover from same assms(3) have "returns (?rules' ! m) (args ! m) False" by simp
    moreover from same true_before have "\<forall>k<m. returns (?rules' ! k) (args ! k) True" by simp
    ultimately have "validate_wrapper ?rules' func' args kwargs w =
        (Inl (ValueError (index_message m)), rule_effects (take (Suc m) (zip args rules)) w)"
      using m_args validate_wrapper_first_false [of m args ?rules' func' kwargs w] by simp
    with call show ?thesis by (simp add: validate_inputs_def functools_wraps_def)
  qed
qed

text \<open>
  Three rules, the second lambda twice, on \<^verbatim>\<open>(10, -5, -7)\<close>: the rules at indices 1 and
  2 return false, and the error names index 1.
\<close>

theorem validate_inputs_smallest_failing_index_witness:
  "func_call (validate_inputs [is_int_rule, positive_rule, positive_rule] process_numbers_body)
      [PyInt 10, PyInt (- 5), PyInt (- 7)] [] \<lparr>stdout = [], store = ()\<rparr> =
     (Inl (Exn ''ValueError'' ''Argument at index 1 does not satisfy the rule.''),
      \<lparr>stdout = [], store = ()\<rparr>)"
proof -
  let ?args = "[PyInt 10, PyInt (- 5), PyInt (- 7)]"
  let ?rules = "[is_int_rule, positive_rule, positive_rule :: (pyval, unit) rule]"
  have r0: "returns (?rules ! 0) (?args ! 0) True"
    by (simp add: returns_def)
  have r1: "returns (?rules ! 1) (?args ! 1) False"
    by (simp add: returns_def)
  have r2: "returns (?rules ! 2) (?args ! 2) False"
    by (simp add: returns_def)
  have not_r0: "\<not> returns (?rules ! 0) (?args ! 0) False"
    by (simp add: returns_def)
  have smallest: "\<forall>k<1. \<not> returns (?rules ! k) (?args ! k) False"
    using not_r0 by simp
  have before: "\<forall>k<1. \<exists>b. returns (?rules ! k) (?args ! k) b"
    using r0 by auto
  have "(1::nat) < 2" and "2 < min (length ?args) (length ?rules)"
    by simp_all
  from validate_inputs_smallest_failing_index [OF this r1 r2 smallest before, of process_numbers_body "[]"
      "\<lparr>stdout = [], store = ()\<rparr>"]
  have "func_call (validate_inputs ?rules process_numbers_body) ?args [] \<lparr>stdout = [], store = ()\<rparr> =
      (Inl (ValueError (index_message 1)), rule_effects (take (Suc 1) (zip ?args ?rules)) \<lparr>stdout = [], store = ()\<rparr>)"
    by (rule conjunct1)
  then show ?thesis
    by (simp add: ValueError_def index_message_def str_nat_digit)
qed

text \<open>
  Claim C9 as it is worded, for every call in which more than one input fails its rule,
  does not hold when a rule before the smallest failing index raises. With the rules
  \<^verbatim>\<open>lambda x: x > 0\<close>, \<^verbatim>\<open>lambda x: isinstance(x, int)\<close> and the latter again, on
  \<^verbatim>\<open>("a", "b", "c")\<close>, the rules at indices 1 and 2 return false and the rule at index 0
  returns nothing: the comparison raises, and the call raises that \<^verbatim>\<open>TypeError\<close>, which
  names no index.
\<close>

theorem validate_inputs_raising_rule_before_failures:
  "fst (is_int_rule (PyStr ''b'') \<lparr>stdout = [], store = ()\<rparr>) = Inr False \<and>
   fst (is_int_rule (PyStr ''c'') \<lparr>stdout = [], store = ()\<rparr>) = Inr False \<and>
   fst (positive_rule (PyStr ''a'') \<lparr>stdout = [], store = ()\<rparr>) \<noteq> Inr False \<and>
   fst (func_call (validate_inputs [positive_rule, is_int_rule, is_int_rule] process_numbers_body)
      [PyStr ''a'', PyStr ''b'', PyStr ''c''] [] \<lparr>stdout = [], store = ()\<rparr>) =
     Inl (Exn ''TypeError'' (quoted ''>'' @ '' not supported between instances of '' @
        quoted ''str'' @ '' and '' @ quoted ''int'')) \<and>
   fst (func_call (validate_inputs [positive_rule, is_int_rule, is_int_rule] process_numbers_body)
      [PyStr ''a'', PyStr ''b'', PyStr ''c''] [] \<lparr>stdout = [], store = ()\<rparr>) \<noteq>
     Inl (Exn ''ValueError'' ''Argument at index 1 does not satisfy the rule.'')"
  by (simp add: validate_inputs_def functools_wraps_def validate_wrapper_def TypeError_def)

section \<open>The timing wrapper\<close>

text \<open>
  Claim C3. When the target raises, the call through \<^verbatim>\<open>timeit\<close> raises the same
  exception and leaves the world as the target left it: nothing is printed after the
  target, so there is no timing report.
\<close>

theorem timeit_failure_propagates:
  assumes "func_call func args kwargs w = (Inl e, w')"
  shows "func_call (timeit time_time str_elapsed func) args kwargs w = (Inl e, w')
         \<and> stdout (snd (func_call (timeit time_time str_elapsed func) args kwargs w)) = stdout w'"
  using assms by (simp add: timeit_def functools_wraps_def timeit_wrapper_def)

text \<open>\<^verbatim>\<open>long_running_task(1)\<close>: the task takes no input.\<close>

theorem timeit_failure_propagates_witness:
  "func_call (long_running_task 2) [PyInt 1] [] \<lparr>stdout = [], store = 100\<rparr> =
     (Inl (Exn ''TypeError'' ''long_running_task() takes 0 positional arguments but 1 was given''),
      \<lparr>stdout = [], store = 100\<rparr>)"
proof -
  have "func_call (long_running_task_body 2) [PyInt 1] [] \<lparr>stdout = [], store = 100\<rparr> =
      (Inl (TypeError ''long_running_task() takes 0 positional arguments but 1 was given''),
       \<lparr>stdout = [], store = 100\<rparr>)"
    by (simp add: long_running_task_body_def bind_arguments_def plural_def str_nat_digit)
  from timeit_failure_propagates [OF this, where time_time = store
      and str_elapsed = str_whole_seconds]
  show ?thesis
    by (simp add: long_running_task_def TypeError_def)
qed

text \<open>
  Claim C4, as the code has it. When the target has a \<^verbatim>\<open>__name__\<close> and returns, the
  call through \<^verbatim>\<open>timeit\<close> returns the same value, and the world is the one the target
  left with one more line printed: the name of the target and the text of the elapsed
  time.
\<close>

theorem timeit_returns_result:
  assumes "func_call func args kwargs w = (Inr r, w')"
    and "func_name func = Name name"
  shows "func_call (timeit time_time str_elapsed func) args kwargs w =
           (Inr r, w'\<lparr>stdout := stdout w' @
              [name @ '' executed in '' @ str_elapsed (time_time w' - time_time w) @ '' seconds.'']\<rparr>)"
  using assms
  by (simp add: timeit_def functools_wraps_def timeit_wrapper_def read_name_def print_def)

text \<open>\<^verbatim>\<open>long_running_task()\<close>, called when the clock reads 100.\<close>

theorem timeit_returns_result_witness:
  "func_call (long_running_task 2) [] [] \<lparr>stdout = [], store = 100\<rparr> =
     (Inr PyNone,
      \<lparr>stdout = [''Task completed.'', ''long_running_task executed in 2.0 seconds.''], store = 102\<rparr>)"
proof -
  have "func_call (long_running_task_body 2) [] [] \<lparr>stdout = [], store = 100\<rparr> =
      (Inr PyNone, \<lparr>stdout = [''Task completed.''], store = 102\<rparr>)"
    by (simp add: long_running_task_body_no_input long_running_task_body_name print_def)
  moreover have "func_name (long_running_task_body 2) = Name ''long_running_task''"
    by (rule long_running_task_body_name)
  ultimately show ?thesis
    using timeit_returns_result [where func = "long_running_task_body 2" and args = "[]"
        and kwargs = "[]" and w = "\<lparr>stdout = [], store = 100\<rparr>" and r = PyNone
        and w' = "\<lparr>stdout = [''Task completed.''], store = 102\<rparr>"
        and name = "''long_running_task''" and time_time = store
        and str_elapsed = str_whole_seconds]
    by (simp add: long_running_task_def str_whole_seconds_def str_int_def str_nat_digit)
qed

text \<open>
  Claim C4 as it is worded, for every wrapped operation, does not hold for a callable
  without a name. \<^verbatim>\<open>functools.partial(long_running_task)\<close> of the undecorated function
  returns \<^verbatim>\<open>None\<close>; through \<^verbatim>\<open>timeit\<close> the same call runs the target and then raises
  \<^verbatim>\<open>AttributeError\<close>, so the caller gets no result.
\<close>

theorem timeit_target_without_name:
  "func_call (functools_partial (long_running_task_body 2) []) [] [] \<lparr>stdout = [], store = 100\<rparr> =
     (Inr PyNone, \<lparr>stdout = [''Task completed.''], store = 102\<rparr>) \<and>
   func_call (timeit store str_whole_seconds (functools_partial (long_running_task_body 2) []))
      [] [] \<lparr>stdout = [], store = 100\<rparr> =
     (Inl (Exn ''AttributeError''
        (quoted ''functools.partial'' @ '' object has no attribute '' @ quoted ''__name__'')),
      \<lparr>stdout = [''Task completed.''], store = 102\<rparr>)"
  by (simp add: timeit_def functools_wraps_def timeit_wrapper_def read_name_def functools_partial_def
      long_running_task_body_no_input long_running_task_body_name print_def AttributeError_def)

text \<open>
  Claim C7, as the code has it. Neither wrapper changes what goes in or what comes out.
  A call through the validating wrapper is either the call of the target on the caller's
  positional and named inputs, with the target's own outcome, or a failure before the
  target is called; in both cases the world has been changed by paired rules only. A
  call through the timing wrapper calls the target on the caller's inputs: an exception
  of the target is the caller's, a value that the caller gets is the target's, the
  caller gets the target's outcome whenever the target has a \<^verbatim>\<open>__name__\<close>, and the
  store, where every object lives, is as the target left it.
\<close>

theorem interceptors_leave_inputs_and_output:
  "(func_call (validate_inputs rules func) args kwargs w =
      func_call func args kwargs (rule_effects (zip args rules) w) \<or>
    (\<exists>e n. n \<le> length (zip args rules) \<and>
       func_call (validate_inputs rules func) args kwargs w =
         (Inl e, rule_effects (take n (zip args rules)) w))) \<and>
   (\<forall>name. func_name func = Name name \<longrightarrow>
      fst (func_call (timeit time_time str_elapsed func) args kwargs w) =
        fst (func_call func args kwargs w)) \<and>
   (\<forall>e. fst (func_call func args kwargs w) = Inl e \<longrightarrow>
      fst (func_call (timeit time_time str_elapsed func) args kwargs w) = Inl e) \<and>
   (\<forall>r. fst (func_call (timeit time_time str_elapsed func) args kwargs w) = Inr r \<longrightarrow>
      fst (func_call func args kwargs w) = Inr r) \<and>
   store (snd (func_call (timeit time_time str_elapsed func) args kwargs w)) =
     store (snd (func_call func args kwargs w))"
proof (intro conjI allI impI)
  let ?loop = "validate_loop (enumerate 0 (zip args rules)) w"
  from validate_loop_world [of "zip args rules" 0 w]
  obtain n where n: "n \<le> length (zip args rules)"
    "snd ?loop = rule_effects (take n (zip args rules)) w"
    "fst ?loop = Inr () \<longrightarrow> n = length (zip args rules)"
    by blast
  show "func_call (validate_inputs rules func) args kwargs w =
      func_call func args kwargs (rule_effects (zip args rules) w) \<or>
    (\<exists>e n. n \<le> length (zip args rules) \<and>
       func_call (validate_inputs rules func) args kwargs w =
         (Inl e, rule_effects (take n (zip args rules)) w))"
  proof (cases "fst ?loop")
    case (Inl e)
    with n(2) have "?loop = (Inl e, rule_effects (take n (zip args rules)) w)"
      by (simp add: prod_eq_iff)
    then have "func_call (validate_inputs rules func) args kwargs w =
        (Inl e, rule_effects (take n (zip args rules)) w)"
      by (simp add: validate_inputs_def functools_wraps_def validate_wrapper_def)
    with n(1) show ?thesis by blast
  next
    case (Inr u)
    with n have "?loop = (Inr (), rule_effects (zip args rules) w)"
      by (simp add: prod_eq_iff)
    then show ?thesis
      by (simp add: validate_inputs_def functools_wraps_def validate_wrapper_def)
  qed
next
  fix name assume "func_name func = Name name"
  then show "fst (func_call (timeit time_time str_elapsed func) args kwargs w) =
      fst (func_call func args kwargs w)"
    by (simp add: timeit_def functools_wraps_def timeit_wrapper_def read_name_def
        split: prod.splits sum.splits)
next
  fix e assume "fst (func_call func args kwargs w) = Inl e"
  then obtain w' where "func_call func args kwargs w = (Inl e, w')"
    by (cases "func_call func args kwargs w") simp
  then show "fst (func_call (timeit time_time str_elapsed func) args kwargs w) = Inl e"
    by (simp add: timeit_def functools_wraps_def timeit_wrapper_def)
next
  fix r assume "fst (func_call (timeit time_time str_elapsed func) args kwargs w) = Inr r"
  then show "fst (func_call func args kwargs w) = Inr r"
    by (simp add: timeit_def functools_wraps_def timeit_wrapper_def
        split: prod.splits sum.splits)
next
  show "store (snd (func_call (timeit time_time str_elapsed func) args kwargs w)) =
      store (snd (func_call func args kwargs w))"
    by (simp add: timeit_def functools_wraps_def timeit_wrapper_def print_def
        split: prod.splits sum.splits)
qed

text \<open>
  \<^verbatim>\<open>process_numbers(10, 5)\<close> through either wrapper, in a world whose clock reads 100.
\<close>

theorem interceptors_leave_inputs_and_output_witness:
  "func_call (validate_inputs [is_int_rule, positive_rule] process_numbers_body)
      [PyInt 10, PyInt 5] [] \<lparr>stdout = [], store = 100\<rparr> =
     func_call process_numbers_body [PyInt 10, PyInt 5] [] \<lparr>stdout = [], store = 100\<rparr> \<and>
   fst (func_call (timeit store str_whole_seconds process_numbers_body)
      [PyInt 10, PyInt 5] [] \<lparr>stdout = [], store = 100\<rparr>) = Inr PyNone \<and>
   store (snd (func_call (timeit store str_whole_seconds process_numbers_body)
      [PyInt 10, PyInt 5] [] \<lparr>stdout = [], store = 100\<rparr>)) = (100::int)"
  using interceptors_leave_inputs_and_output [of "[is_int_rule, positive_rule]" process_numbers_body
      "[PyInt 10, PyInt 5]" "[]" "\<lparr>stdout = [], store = 100::int\<rparr>" store str_whole_seconds]
  by (simp add: process_numbers_body_positional process_numbers_body_name print_def
      validate_inputs_def functools_wraps_def validate_wrapper_def)

text \<open>
  Claim C7 as it is worded, for every call through either wrapper, does not hold for
  the timing wrapper around a callable without a name.
  \<^verbatim>\<open>functools.partial(process_numbers, 10)\<close> of the undecorated function, called on
  \<^verbatim>\<open>5\<close>, returns \<^verbatim>\<open>None\<close>; the caller of the timing wrapper around it does not get
  that output, but an \<^verbatim>\<open>AttributeError\<close>.
\<close>

theorem timeit_output_not_received:
  "fst (func_call (functools_partial process_numbers_body [PyInt 10])
      [PyInt 5] [] \<lparr>stdout = [], store = 100\<rparr>) = Inr PyNone \<and>
   fst (func_call (timeit store str_whole_seconds (functools_partial process_numbers_body [PyInt 10]))
      [PyInt 5] [] \<lparr>stdout = [], store = 100\<rparr>) \<noteq> Inr PyNone \<and>
   stdout (snd (func_call (timeit store str_whole_seconds (functools_partial process_numbers_body [PyInt 10]))
      [PyInt 5] [] \<lparr>stdout = [], store = 100\<rparr>)) = [''Processing numbers: 10, 5'']"
  by (simp add: timeit_def functools_wraps_def timeit_wrapper_def read_name_def functools_partial_def
      process_numbers_body_positional process_numbers_body_named_y print_def
      str_int_def str_nat_digit str_nat_digits)

text \<open>
  Claim C8, as the code has it. In a call through \<^verbatim>\<open>timeit\<close> that returns, the target
  has returned the same value, and the line printed last reports the reading of the
  clock after the target minus the reading before it. That duration is not negative if
  the second reading is not before the first, and it is at least \<open>D\<close> if the clock has
  advanced by \<open>D\<close> or more while the target ran. The readings are numbers of an ordered
  group, as the integers and the reals are.
\<close>

theorem timeit_reported_duration:
  fixes time_time :: "'h world \<Rightarrow> 't::ordered_ab_group_add"
  assumes "fst (func_call (timeit time_time str_elapsed func) args kwargs w) = Inr r"
  shows "\<exists>name w' elapsed.
           func_call func args kwargs w = (Inr r, w') \<and> func_name func = Name name \<and>
           elapsed = time_time w' - time_time w \<and>
           snd (func_call (timeit time_time str_elapsed func) args kwargs w) =
             print (name @ '' executed in '' @ str_elapsed elapsed @ '' seconds.'') w' \<and>
           (time_time w \<le> time_time w' \<longrightarrow> 0 \<le> elapsed) \<and>
           (\<forall>D. time_time w + D \<le> time_time w' \<longrightarrow> D \<le> elapsed)"
proof -
  obtain res w' where target: "func_call func args kwargs w = (res, w')"
    by (cases "func_call func args kwargs w")
  with assms obtain name where res: "res = Inr r" and name: "func_name func = Name name"
    by (cases res; cases "func_name func")
      (simp_all add: timeit_def functools_wraps_def timeit_wrapper_def read_name_def)
  let ?elapsed = "time_time w' - time_time w"
  from target res name
  have "snd (func_call (timeit time_time str_elapsed func) args kwargs w) =
      print (name @ '' executed in '' @ str_elapsed ?elapsed @ '' seconds.'') w'"
    by (simp add: timeit_def functools_wraps_def timeit_wrapper_def read_name_def)
  moreover have "0 \<le> ?elapsed" if "time_time w \<le> time_time w'"
    using that by simp
  moreover have "D \<le> ?elapsed" if "time_time w + D \<le> time_time w'" for D
    using that by (simp add: le_diff_eq add.commute)
  ultimately show ?thesis
    using target res name by blast
qed

text \<open>\<^verbatim>\<open>long_running_task()\<close>, called when the clock reads 100 and read at 102 after it.\<close>

theorem timeit_reported_duration_witness:
  "stdout (snd (func_call (long_running_task 2) [] [] \<lparr>stdout = [], store = 100\<rparr>)) =
     [''Task completed.'', ''long_running_task executed in 2.0 seconds.''] \<and>
   (2::int) \<le> store (snd (func_call (long_running_task_body 2) [] [] \<lparr>stdout = [], store = 100\<rparr>)) - 100"
proof -
  have ok: "fst (func_call (timeit store str_whole_seconds (long_running_task_body 2)) [] []
      \<lparr>stdout = [], store = 100\<rparr>) = Inr PyNone"
    by (simp add: timeit_def functools_wraps_def timeit_wrapper_def read_name_def
        long_running_task_body_no_input long_running_task_body_name)
  have target: "func_call (long_running_task_body 2) [] [] \<lparr>stdout = [], store = 100\<rparr> =
      (Inr PyNone, \<lparr>stdout = [''Task completed.''], store = 102\<rparr>)"
    by (simp add: long_running_task_body_no_input long_running_task_body_name print_def)
  from timeit_reported_duration [OF ok] obtain name w' elapsed where
    "func_call (long_running_task_body 2) [] [] \<lparr>stdout = [], store = 100\<rparr> = (Inr PyNone, w')"
    "func_name (long_running_task_body 2) = Name name"
    "elapsed = store w' - store \<lparr>stdout = [], store = 100::int\<rparr>"
    "snd (func_call (timeit store str_whole_seconds (long_running_task_body 2)) [] []
        \<lparr>stdout = [], store = 100\<rparr>) =
      print (name @ '' executed in '' @ str_whole_seconds elapsed @ '' seconds.'') w'"
    "\<forall>D. store \<lparr>stdout = [], store = 100::int\<rparr> + D \<le> store w' \<longrightarrow> D \<le> elapsed"
    by blast
  with target show ?thesis
    by (simp add: long_running_task_def long_running_task_body_name print_def
        str_whole_seconds_def str_int_def str_nat_digit)
qed

text \<open>
  Claim C8 as it is worded, for every call that returns, does not hold: the clock that
  \<^verbatim>\<open>time.time()\<close> reads is the clock of the system, which can be set back. When it reads
  2 seconds less after the sleep of \<^verbatim>\<open>long_running_task()\<close> than before it, the call
  returns and the duration reported is negative.
\<close>

theorem timeit_reports_negative_duration:
  "func_call (long_running_task (- 2)) [] [] \<lparr>stdout = [], store = 100\<rparr> =
     (Inr PyNone,
      \<lparr>stdout = [''Task completed.'', ''long_running_task executed in -2.0 seconds.''], store = 98\<rparr>) \<and>
   store (snd (func_call (long_running_task_body (- 2)) [] [] \<lparr>stdout = [], store = 100\<rparr>)) - 100 < (0::int)"
  by (simp add: long_running_task_def timeit_def functools_wraps_def timeit_wrapper_def read_name_def
      long_running_task_body_no_input long_running_task_body_name print_def
      str_whole_seconds_def str_int_def str_nat_digit)

section \<open>The generator and the list builder agree\<close>

text \<open>
  Both loops keep \<open>a\<close> and \<open>b\<close> at two consecutive Fibonacci numbers. The list builder
  is followed along its list of range items, the generator along the number of values
  it has left.
\<close>

lemma fibon_normal_loop_fibonacci:
  "fibon_normal_loop items (fibonacci k) (fibonacci (Suc k)) result =
     result @ map fibonacci [k..<k + length items]"
proof (induction items arbitrary: k result)
  case Nil
  show ?case by simp
next
  case (Cons i items)
  have "fibon_normal_loop (i # items) (fibonacci k) (fibonacci (Suc k)) result =
          fibon_normal_loop items (fibonacci (Suc k)) (fibonacci (Suc (Suc k))) (result @ [fibonacci k])"
    by simp
  also have "\<dots> = (result @ [fibonacci k]) @ map fibonacci [Suc k..<Suc k + length items]"
    by (rule Cons.IH)
  also have "\<dots> = result @ map fibonacci (k # [Suc k..<Suc k + length items])"
    by simp
  also have "k # [Suc k..<Suc k + length items] = [k..<k + length (i # items)]"
    using upt_conv_Cons [of k "Suc (k + length items)"] by (simp del: upt_Suc)
  finally show ?case .
qed

lemma yielded_Suspended:
  "yielded (Suspended (fibonacci k) (fibonacci (Suc k)) (Suc k) n) = map fibonacci [Suc k..<nat n]"
proof (induction "nat n - Suc k" arbitrary: k)
  case 0
  then have "\<not> int (Suc k) < n" by linarith
  moreover from 0 have "[Suc k..<nat n] = []" by simp
  ultimately show ?case
    by (simp add: yielded.simps [of "Suspended _ _ _ _"])
next
  case (Suc m)
  then have less: "int (Suc k) < n" and "m = nat n - Suc (Suc k)" by linarith+
  then have IH: "yielded (Suspended (fibonacci (Suc k)) (fibonacci (Suc (Suc k))) (Suc (Suc k)) n) =
      map fibonacci [Suc (Suc k)..<nat n]"
    using Suc.hyps(1) by blast
  from less have "Suc k < nat n" by linarith
  then have "[Suc k..<nat n] = Suc k # [Suc (Suc k)..<nat n]"
    by (simp add: upt_conv_Cons)
  with less IH show ?case
    by (simp add: yielded.simps [of "Suspended (fibonacci k) _ _ _"] add.commute)
qed

lemma yielded_fibon_generator: "yielded (fibon_generator n) = map fibonacci [0..<nat n]"
proof (cases "0 < n")
  case True
  then have "[0..<nat n] = 0 # [Suc 0..<nat n]"
    by (simp add: upt_conv_Cons)
  with True yielded_Suspended [of 0 n] show ?thesis
    by (simp add: fibon_generator_def yielded.simps [of "Created n"])
next
  case False
  then show ?thesis
    by (simp add: fibon_generator_def yielded.simps [of "Created n"])
qed

text \<open>
  Claim C10. For every \<open>n\<close>, the values that \<^verbatim>\<open>fibon_generator(n)\<close> yields, in order,
  are the list that \<^verbatim>\<open>fibon_normal(n)\<close> returns, and that list is the first \<open>n\<close>
  Fibonacci numbers 1, 1, 2, 3, 5, ... (none when \<open>n\<close> is not positive, where
  \<^verbatim>\<open>range(n)\<close> is empty).
\<close>

theorem fibon_generator_equals_fibon_normal:
  "yielded (fibon_generator n) = fibon_normal n \<and> fibon_normal n = first_fibonacci (nat n)
     \<and> length (fibon_normal n) = nat n"
proof -
  have "fibon_normal n = map fibonacci [0..<nat n]"
    using fibon_normal_loop_fibonacci [of "[0..<nat n]" 0 "[]"]
    by (simp add: fibon_normal_def)
  then show ?thesis
    by (simp add: yielded_fibon_generator first_fibonacci_def)
qed

theorem fibon_generator_equals_fibon_normal_witness:
  "yielded (fibon_generator 5) = [1, 1, 2, 3, 5] \<and> fibon_normal 5 = [1, 1, 2, 3, 5]"
  using fibon_generator_equals_fibon_normal [of 5]
  by (simp add: first_fibonacci_def upt_rec numeral_eq_Suc)


end
